theory Spec2Isabelle
  imports Main
begin

section \<open>Azure registry explorer nodes (explorer/models/azureRegistryNodes.ts)\<close>

subsection \<open>Descriptors supplied by the SDKs\<close>

text \<open>
  The account, subscription and registry objects come from the Azure SDKs. The module
  only stores them and hands them on, so each is a handle around an identifier.
  A \<open>Date\<close> is a point in time, in milliseconds since the epoch.
\<close>

datatype AzureAccount = AzureAccount string
datatype Subscription = Subscription string
datatype Registry = Registry string
type_synonym Date = int

text \<open>A thrown or reported JavaScript \<open>Error\<close>; only its \<open>message\<close> is read.\<close>

datatype Error = Error (message: string)

text \<open>
  \<open>Repository\<close> and \<open>AzureImage\<close> (utils/Azure/models) with the fields this module
  reads: \<open>repository.name\<close>, and \<open>img.subscription\<close>, \<open>img.registry\<close>,
  \<open>img.repository\<close>, \<open>img.tag\<close>, \<open>img.created\<close>.
\<close>

record Repository =
  Repository_name :: string
  Repository_registry :: Registry

record AzureImage =
  AzureImage_subscription :: Subscription
  AzureImage_registry :: Registry
  AzureImage_repository :: Repository
  AzureImage_tag :: string
  AzureImage_created :: Date

subsection \<open>Tree items\<close>

datatype TreeItemCollapsibleState =
  TreeItemCollapsibleState_None | TreeItemCollapsibleState_Collapsed | TreeItemCollapsibleState_Expanded

record IconPath =
  light :: string
  dark :: string

record Command =
  Command_title :: string
  Command_command :: string

text \<open>
  A \<open>vscode.TreeItem\<close> object literal. A property the literal does not mention is
  \<open>None\<close>.
\<close>

record TreeItem =
  TreeItem_label :: string
  TreeItem_collapsibleState :: TreeItemCollapsibleState
  TreeItem_contextValue :: "string option"
  TreeItem_iconPath :: "IconPath option"
  TreeItem_command :: "Command option"

subsection \<open>Collaborators\<close>

text \<open>
  The action context that \<open>callWithTelemetryAndErrorHandling\<close> hands to its callback as
  \<open>this\<close>; the callbacks of this module write \<open>suppressTelemetry\<close> and
  \<open>properties.source\<close>.
\<close>

record IActionContext =
  suppressTelemetry :: bool
  properties :: "string \<rightharpoonup> string"

text \<open>
  Everything the module imports and calls: the \<open>imagesPath\<close> constant, \<open>path.join\<close>,
  \<open>formatTag\<close> (commonRegistryUtils), the two listing operations and
  \<open>Repository.Create\<close> (acrTools, awaited, so each either returns or throws),
  \<open>getLoginServer\<close> (utils/nonNull, which may throw as well), and the action context
  the telemetry wrapper creates for a call, with the properties the library seeds it
  with. They are parameters of the model; a throwing call is \<open>Inl\<close>.
\<close>

record env =
  imagesPath :: string
  path_join :: "string list \<Rightarrow> string"
  formatTag :: "string \<Rightarrow> Date \<Rightarrow> string"
  getRepositoriesByRegistry :: "Registry \<Rightarrow> Error + Repository list"
  Repository_Create :: "Registry \<Rightarrow> string \<Rightarrow> Error + Repository"
  getImagesByRepository :: "Repository \<Rightarrow> Error + AzureImage list"
  getLoginServer :: "Registry \<Rightarrow> Error + string"
  newActionContext :: IActionContext

subsection \<open>The node classes\<close>

text \<open>
  One constructor per class, its arguments the class's fields in the order of the
  TypeScript constructor. \<open>azureAccount\<close> is tested for truthiness by the code, so it
  can be absent. \<open>label\<close> is the field of the base class \<open>NodeBase\<close>, set by
  \<open>super(label)\<close>. \<open>TaskRootNode\<close> (taskNode.ts) is only constructed here.
\<close>

datatype NodeBase =
    AzureRegistryNode
      (label: string) (azureAccount: "AzureAccount option") (registry: Registry)
      (subscription: Subscription)
  | TaskRootNode
      (label: string) (azureAccount: "AzureAccount option") (subscription: Subscription)
      (registry: Registry)
  | AzureRepositoryNode
      (label: string) (parent: NodeBase) (azureAccount: "AzureAccount option")
      (subscription: Subscription) (registry: Registry) (repositoryName: string)
  | AzureImageTagNode
      (label: string) (azureAccount: "AzureAccount option") (parent: NodeBase)
      (subscription: Subscription) (registry: Registry) (serverUrl: string)
      (repositoryName: string) (tag: string) (created: Date)
  | AzureNotSignedInNode (label: string)
  | AzureLoadingNode (label: string)

text \<open>\<open>AzureImageTagNode.getImageNameWithTag\<close>: the template \<open>`${repositoryName}:${tag}`\<close>.\<close>

definition getImageNameWithTag :: "string \<Rightarrow> string \<Rightarrow> string" where
  "getImageNameWithTag repoName tagName = repoName @ '':'' @ tagName"

text \<open>
  The three constructors that compute the label they pass to \<open>super\<close>. The other
  classes take the label as their first constructor argument.
\<close>

definition new_AzureImageTagNode ::
  "AzureAccount option \<Rightarrow> NodeBase \<Rightarrow> Subscription \<Rightarrow> Registry \<Rightarrow> string \<Rightarrow> string \<Rightarrow> string
     \<Rightarrow> Date \<Rightarrow> NodeBase" where
  "new_AzureImageTagNode acct par sub reg url repoName tagName createdAt =
     AzureImageTagNode (getImageNameWithTag repoName tagName) acct par sub reg url repoName
       tagName createdAt"

definition new_AzureNotSignedInNode :: NodeBase where
  "new_AzureNotSignedInNode = AzureNotSignedInNode ''Sign in to Azure...''"

definition new_AzureLoadingNode :: NodeBase where
  "new_AzureLoadingNode = AzureLoadingNode ''Loading...''"

text \<open>The \<open>contextValue\<close> and \<open>iconPath\<close> field initialisers of the classes.\<close>

definition AzureRegistryNode_contextValue :: string where
  "AzureRegistryNode_contextValue = ''azureRegistryNode''"

definition AzureRepositoryNode_contextValue :: string where
  "AzureRepositoryNode_contextValue = ''azureRepositoryNode''"

definition AzureImageTagNode_contextValue :: string where
  "AzureImageTagNode_contextValue = ''azureImageTagNode''"

definition AzureRegistryNode_iconPath :: "env \<Rightarrow> IconPath" where
  "AzureRegistryNode_iconPath e =
     \<lparr>light = path_join e [imagesPath e, ''light'', ''Registry_16x.svg''],
      dark = path_join e [imagesPath e, ''dark'', ''Registry_16x.svg'']\<rparr>"

definition AzureRepositoryNode_iconPath :: "env \<Rightarrow> IconPath" where
  "AzureRepositoryNode_iconPath e =
     \<lparr>light = path_join e [imagesPath e, ''light'', ''Repository_16x.svg''],
      dark = path_join e [imagesPath e, ''dark'', ''Repository_16x.svg'']\<rparr>"

subsection \<open>getTreeItem\<close>

text \<open>
  \<open>getTreeItem\<close> of the five classes of the module, by the class of \<open>this\<close>. A method
  can assign to the fields of \<open>this\<close>, so the model returns the tree item together with
  \<open>this\<close> as the method leaves it.
\<close>

fun getTreeItem :: "env \<Rightarrow> NodeBase \<Rightarrow> TreeItem \<times> NodeBase" where
  "getTreeItem e (AzureRegistryNode l a r s) =
     (\<lparr>TreeItem_label = label (AzureRegistryNode l a r s),
       TreeItem_collapsibleState = TreeItemCollapsibleState_Collapsed,
       TreeItem_contextValue = Some AzureRegistryNode_contextValue,
       TreeItem_iconPath = Some (AzureRegistryNode_iconPath e),
       TreeItem_command = None\<rparr>,
      AzureRegistryNode l a r s)"
| "getTreeItem e (AzureRepositoryNode l p a s r n) =
     (\<lparr>TreeItem_label = label (AzureRepositoryNode l p a s r n),
       TreeItem_collapsibleState = TreeItemCollapsibleState_Collapsed,
       TreeItem_contextValue = Some AzureRepositoryNode_contextValue,
       TreeItem_iconPath = Some (AzureRepositoryNode_iconPath e),
       TreeItem_command = None\<rparr>,
      AzureRepositoryNode l p a s r n)"
| "getTreeItem e (AzureImageTagNode l a p s r u n t c) =
     (\<lparr>TreeItem_label =
         formatTag e (label (AzureImageTagNode l a p s r u n t c))
           (created (AzureImageTagNode l a p s r u n t c)),
       TreeItem_collapsibleState = TreeItemCollapsibleState_None,
       TreeItem_contextValue = Some AzureImageTagNode_contextValue,
       TreeItem_iconPath = None,
       TreeItem_command = None\<rparr>,
      AzureImageTagNode l a p s r u n t c)"
| "getTreeItem e (AzureNotSignedInNode l) =
     (\<lparr>TreeItem_label = label (AzureNotSignedInNode l),
       TreeItem_collapsibleState = TreeItemCollapsibleState_None,
       TreeItem_contextValue = None,
       TreeItem_iconPath = None,
       TreeItem_command =
         Some \<lparr>Command_title = label (AzureNotSignedInNode l),
               Command_command = ''azure-account.login''\<rparr>\<rparr>,
      AzureNotSignedInNode l)"
| "getTreeItem e (AzureLoadingNode l) =
     (\<lparr>TreeItem_label = label (AzureLoadingNode l),
       TreeItem_collapsibleState = TreeItemCollapsibleState_None,
       TreeItem_contextValue = None,
       TreeItem_iconPath = None,
       TreeItem_command = None\<rparr>,
      AzureLoadingNode l)"

subsection \<open>The telemetry wrapper\<close>

text \<open>
  \<open>callWithTelemetryAndErrorHandling\<close> (vscode-azureextensionui) runs the callback with
  the action context it creates as \<open>this\<close> (\<open>newActionContext\<close> of the collaborators).
  When the callback throws, the wrapper reports the error and returns \<open>undefined\<close> to its
  caller; otherwise it returns the callback's value. The result is paired with the
  context as the callback left it.
\<close>

definition callWithTelemetryAndErrorHandling ::
  "env \<Rightarrow> string \<Rightarrow> (IActionContext \<Rightarrow> (Error + 'a) \<times> IActionContext)
     \<Rightarrow> 'a option \<times> IActionContext" where
  "callWithTelemetryAndErrorHandling e callbackId callback =
     (case callback (newActionContext e) of
        (Inl err, this) \<Rightarrow> (None, this)
      | (Inr result, this) \<Rightarrow> (Some result, this))"

subsection \<open>getChildren\<close>

text \<open>
  The \<open>for (let repository of repositories)\<close> loop of \<open>AzureRegistryNode.getChildren\<close>:
  one \<open>new AzureRepositoryNode(repository.name, element, me.azureAccount,
  element.subscription, element.registry, element.label)\<close> pushed per repository.
\<close>

fun pushRepositoryNodes ::
  "NodeBase \<Rightarrow> NodeBase \<Rightarrow> Repository list \<Rightarrow> NodeBase list \<Rightarrow> NodeBase list" where
  "pushRepositoryNodes me element [] repoNodes = repoNodes"
| "pushRepositoryNodes me element (repository # repositories) repoNodes =
     (let node = AzureRepositoryNode (Repository_name repository) element (azureAccount me)
                   (subscription element) (registry element) (label element)
      in pushRepositoryNodes me element repositories (repoNodes @ [node]))"

text \<open>\<open>AzureRegistryNode.getChildren\<close>; \<open>me\<close> is \<open>this\<close>, \<open>element\<close> the argument.\<close>

definition AzureRegistryNode_getChildren ::
  "env \<Rightarrow> NodeBase \<Rightarrow> NodeBase \<Rightarrow> NodeBase list option \<times> IActionContext" where
  "AzureRegistryNode_getChildren e me element =
     callWithTelemetryAndErrorHandling e ''getChildren'' (\<lambda>this.
       let this = this\<lparr>suppressTelemetry := True\<rparr>;
           this = this\<lparr>properties := (properties this)(''source'' \<mapsto> ''azureRegistryNodes'')\<rparr>;
           repoNodes = [];
           taskNode = TaskRootNode ''Tasks'' (azureAccount element) (subscription element)
                        (registry element);
           repoNodes = repoNodes @ [taskNode]
       in if azureAccount me = None then (Inr [], this)
          else (case getRepositoriesByRegistry e (registry element) of
                  Inl err \<Rightarrow> (Inl err, this)
                | Inr repositories \<Rightarrow>
                    (Inr (pushRepositoryNodes me element repositories repoNodes), this)))"

text \<open>
  The \<open>for (let img of images)\<close> loop of \<open>AzureRepositoryNode.getChildren\<close>. The
  arguments of the constructor are evaluated first, so a throwing \<open>getLoginServer\<close>
  leaves the loop, and the function, with that error.
\<close>

fun pushImageNodes ::
  "env \<Rightarrow> NodeBase \<Rightarrow> AzureImage list \<Rightarrow> NodeBase list \<Rightarrow> Error + NodeBase list" where
  "pushImageNodes e element [] imageNodes = Inr imageNodes"
| "pushImageNodes e element (img # images) imageNodes =
     (case getLoginServer e (AzureImage_registry img) of
        Inl err \<Rightarrow> Inl err
      | Inr loginServer \<Rightarrow>
          (let node = new_AzureImageTagNode (azureAccount element) element
                        (AzureImage_subscription img) (AzureImage_registry img) loginServer
                        (Repository_name (AzureImage_repository img)) (AzureImage_tag img)
                        (AzureImage_created img)
           in pushImageNodes e element images (imageNodes @ [node])))"

definition AzureRepositoryNode_getChildren ::
  "env \<Rightarrow> NodeBase \<Rightarrow> NodeBase \<Rightarrow> NodeBase list option \<times> IActionContext" where
  "AzureRepositoryNode_getChildren e me element =
     callWithTelemetryAndErrorHandling e ''getChildren'' (\<lambda>this.
       let this = this\<lparr>suppressTelemetry := True\<rparr>;
           this = this\<lparr>properties := (properties this)(''source'' \<mapsto> ''azureRepositoryNode'')\<rparr>;
           imageNodes = []
       in (case Repository_Create e (registry element) (label element) of
             Inl err \<Rightarrow> (Inl err, this)
           | Inr repo \<Rightarrow>
               (case getImagesByRepository e repo of
                  Inl err \<Rightarrow> (Inl err, this)
                | Inr images \<Rightarrow> (pushImageNodes e element images imageNodes, this))))"

section \<open>The restart command (commands/restart-container.ts)\<close>

subsection \<open>Inputs\<close>

text \<open>
  A \<open>Docker.ContainerDesc\<close>; the command reads its \<open>Id\<close>. The command's \<open>context\<close>
  argument is a \<open>RootNode\<close>, a \<open>ContainerNode\<close> (whose \<open>containerDesc\<close> the code tests
  for truthiness) or \<open>undefined\<close>.
\<close>

record ContainerDesc =
  ContainerDesc_Id :: string

datatype CommandContext =
  Context_RootNode | Context_ContainerNode (containerDesc: "ContainerDesc option")
  | Context_undefined

record ListContainerDescOptions =
  filters_status :: "string list"

text \<open>
  \<open>quickPickContainerOrAll\<close> (utils/quick-pick-container) is awaited: it returns the
  chosen container descriptors or throws (\<open>Inl\<close>).
\<close>

type_synonym quickPick = "ListContainerDescOptions \<Rightarrow> Error + ContainerDesc list"

subsection \<open>What the command does to its surroundings\<close>

text \<open>
  The calls the command makes on the window, the docker client and the explorer
  provider, and its calls of the promise's \<open>resolve\<close> and \<open>reject\<close>, in the order they
  happen.
\<close>

datatype Call =
    RestartIssued string
  | SetStatusBarMessage string
  | ShowErrorMessage string
  | RefreshContainers
  | ResolveCalled
  | RejectCalled

text \<open>A promise settles once: later calls of \<open>resolve\<close> or \<open>reject\<close> change nothing.\<close>

datatype PromiseState = Pending | Fulfilled | Rejected

text \<open>
  The variables the callbacks close over (\<open>numContainers\<close>, \<open>containerCounter\<close>), the
  state of the promise given to \<open>setStatusBarMessage\<close>, and the calls made so far.
\<close>

record RestartState =
  numContainers :: nat
  containerCounter :: nat
  aggregate :: PromiseState
  calls :: "Call list"

definition call :: "Call \<Rightarrow> RestartState \<Rightarrow> RestartState" where
  "call c s = s\<lparr>calls := calls s @ [c]\<rparr>"

definition showErrorMessage :: "string \<Rightarrow> RestartState \<Rightarrow> RestartState" where
  "showErrorMessage msg s = call (ShowErrorMessage msg) s"

definition refreshContainers :: "RestartState \<Rightarrow> RestartState" where
  "refreshContainers s = call RefreshContainers s"

definition resolve :: "RestartState \<Rightarrow> RestartState" where
  "resolve s =
     call ResolveCalled
       (s\<lparr>aggregate := (if aggregate s = Pending then Fulfilled else aggregate s)\<rparr>)"

definition reject :: "RestartState \<Rightarrow> RestartState" where
  "reject s =
     call RejectCalled
       (s\<lparr>aggregate := (if aggregate s = Pending then Rejected else aggregate s)\<rparr>)"

subsection \<open>The callback of a restart call\<close>

text \<open>
  The function passed to \<open>restart\<close>, called by the docker client with \<open>err\<close> (absent
  when the restart succeeded). The two \<open>if\<close> statements follow each other; the first
  has no \<open>return\<close>.
\<close>

definition restartCallback :: "Error option \<Rightarrow> RestartState \<Rightarrow> RestartState" where
  "restartCallback err s =
     (let s = s\<lparr>containerCounter := containerCounter s + 1\<rparr>;
          s = (case err of
                 Some er \<Rightarrow> reject (refreshContainers (showErrorMessage (message er) s))
               | None \<Rightarrow> s)
      in if containerCounter s = numContainers s then resolve (refreshContainers s) else s)"

subsection \<open>restartContainer\<close>

text \<open>
  \<open>containersToRestart.forEach\<close> inside the promise's executor: one restart call per
  container, each registering the callback. The call returns at once; the outcome of
  the restart reaches the command through the callback only.
\<close>

fun forEach_restart :: "ContainerDesc list \<Rightarrow> RestartState \<Rightarrow> RestartState" where
  "forEach_restart [] s = s"
| "forEach_restart (container # containers) s =
     forEach_restart containers (call (RestartIssued (ContainerDesc_Id container)) s)"

text \<open>
  The command up to its return: the target containers, the two counters, then the
  promise (its executor runs at once, inside \<open>new Promise\<close>) handed to
  \<open>setStatusBarMessage\<close>. A throwing \<open>quickPickContainerOrAll\<close> ends the command
  before any of that.
\<close>

definition restartContainer :: "quickPick \<Rightarrow> CommandContext \<Rightarrow> Error + RestartState" where
  "restartContainer quickPickContainerOrAll context =
     (case (case context of
              Context_ContainerNode (Some desc) \<Rightarrow> Inr [desc]
            | _ \<Rightarrow>
                quickPickContainerOrAll
                  \<lparr>filters_status = [''running'', ''paused'', ''exited'']\<rparr>) of
        Inl err \<Rightarrow> Inl err
      | Inr containersToRestart \<Rightarrow>
          (let s = \<lparr>numContainers = length containersToRestart, containerCounter = 0,
                    aggregate = Pending, calls = []\<rparr>;
               s = forEach_restart containersToRestart s
           in Inr (call (SetStatusBarMessage ''Docker: Restarting Container(s)...'') s)))"

subsection \<open>The callbacks as the docker client fires them\<close>

text \<open>
  After the command has returned, the docker client calls the registered callbacks, in
  an order of its choosing. \<open>observe errs s\<close> is the state after the callbacks with the
  \<open>err\<close> arguments \<open>errs\<close> have run, in that order, from \<open>s\<close>. Each restart call
  registers one callback, and the client calls a callback once at most, so a run of the
  command observes at most \<open>numContainers\<close> of them.
\<close>

fun observe :: "Error option list \<Rightarrow> RestartState \<Rightarrow> RestartState" where
  "observe [] s = s"
| "observe (err # errs) s = observe errs (restartCallback err s)"

text \<open>
  How often the promise settles over a run of callbacks: the number of callbacks that
  change the state of the promise.
\<close>

fun settlements :: "Error option list \<Rightarrow> RestartState \<Rightarrow> nat" where
  "settlements [] s = 0"
| "settlements (err # errs) s =
     (if aggregate (restartCallback err s) = aggregate s then 0 else 1)
       + settlements errs (restartCallback err s)"

section \<open>Concrete scenarios\<close>

text \<open>
  A registry \<open>myregistry\<close> with the repositories \<open>app\<close> and \<open>base\<close>, where \<open>app\<close> has one
  image tagged \<open>latest\<close>; the same registry node without an account; and the repository
  node for \<open>app\<close> as \<open>AzureRegistryNode.getChildren\<close> builds it.
\<close>

definition example_env :: env where
  "example_env =
     \<lparr>imagesPath = ''images'',
      path_join = (\<lambda>parts. concat (map (\<lambda>p. ''/'' @ p) parts)),
      formatTag = (\<lambda>imageLabel createdAt. imageLabel @ '' (a day ago)''),
      getRepositoriesByRegistry =
        (\<lambda>reg. Inr [\<lparr>Repository_name = ''app'', Repository_registry = reg\<rparr>,
                    \<lparr>Repository_name = ''base'', Repository_registry = reg\<rparr>]),
      Repository_Create =
        (\<lambda>reg repoName. Inr \<lparr>Repository_name = repoName, Repository_registry = reg\<rparr>),
      getImagesByRepository =
        (\<lambda>repo. Inr [\<lparr>AzureImage_subscription = Subscription ''sub-1'',
                      AzureImage_registry = Repository_registry repo,
                      AzureImage_repository = repo,
                      AzureImage_tag = ''latest'',
                      AzureImage_created = 0\<rparr>]),
      getLoginServer = (\<lambda>reg. Inr ''myregistry.azurecr.io''),
      newActionContext =
        \<lparr>suppressTelemetry = False,
         properties = [''isActivationEvent'' \<mapsto> ''false'', ''result'' \<mapsto> ''Succeeded'']\<rparr>\<rparr>"

text \<open>The same collaborators, except that \<open>getLoginServer\<close> throws.\<close>

definition example_env_noLoginServer :: env where
  "example_env_noLoginServer =
     example_env\<lparr>getLoginServer := (\<lambda>reg. Inl (Error ''loginServer is missing''))\<rparr>"

definition example_registryNode :: NodeBase where
  "example_registryNode =
     AzureRegistryNode ''myregistry'' (Some (AzureAccount ''user'')) (Registry ''myregistry'')
       (Subscription ''sub-1'')"

definition example_signedOutNode :: NodeBase where
  "example_signedOutNode =
     AzureRegistryNode ''myregistry'' None (Registry ''myregistry'') (Subscription ''sub-1'')"

definition example_repositoryNode :: NodeBase where
  "example_repositoryNode =
     AzureRepositoryNode ''app'' example_registryNode (Some (AzureAccount ''user''))
       (Subscription ''sub-1'') (Registry ''myregistry'') ''myregistry''"

text \<open>
  The container picker returning two containers, and returning none, with the state in
  which \<open>restartContainer\<close> then leaves the command.
\<close>

definition example_pick_two :: quickPick where
  "example_pick_two =
     (\<lambda>opts. Inr [\<lparr>ContainerDesc_Id = ''c1''\<rparr>, \<lparr>ContainerDesc_Id = ''c2''\<rparr>])"

definition example_pick_none :: quickPick where
  "example_pick_none = (\<lambda>opts. Inr [])"

definition example_two_started :: RestartState where
  "example_two_started =
     \<lparr>numContainers = 2, containerCounter = 0, aggregate = Pending,
      calls = [RestartIssued ''c1'', RestartIssued ''c2'',
               SetStatusBarMessage ''Docker: Restarting Container(s)...'']\<rparr>"

definition example_none_started :: RestartState where
  "example_none_started =
     \<lparr>numContainers = 0, containerCounter = 0, aggregate = Pending,
      calls = [SetStatusBarMessage ''Docker: Restarting Container(s)...'']\<rparr>"

section \<open>The children of a registry node\<close>

lemma pushRepositoryNodes_appends:
  "pushRepositoryNodes me element repositories repoNodes =
     repoNodes @ map (\<lambda>repository. AzureRepositoryNode (Repository_name repository) element
        (azureAccount me) (subscription element) (registry element) (label element)) repositories"
  by (induction repositories arbitrary: repoNodes) simp_all

lemma getChildren_registry_result:
  assumes "azureAccount me = Some acct"
    and "getRepositoriesByRegistry e (registry element) = Inr repositories"
  shows "fst (AzureRegistryNode_getChildren e me element) =
     Some (TaskRootNode ''Tasks'' (azureAccount element) (subscription element) (registry element)
       # map (\<lambda>repository. AzureRepositoryNode (Repository_name repository) element
        (azureAccount me) (subscription element) (registry element) (label element)) repositories)"
  using assms
  by (simp add: AzureRegistryNode_getChildren_def callWithTelemetryAndErrorHandling_def
      pushRepositoryNodes_appends)

lemma getChildren_registry_throws:
  assumes "azureAccount me = Some acct"
    and "getRepositoriesByRegistry e (registry element) = Inl err"
  shows "fst (AzureRegistryNode_getChildren e me element) = None"
  using assms
  by (simp add: AzureRegistryNode_getChildren_def callWithTelemetryAndErrorHandling_def)

lemma getChildren_registry_context:
  "snd (AzureRegistryNode_getChildren e me element) =
     (newActionContext e)
       \<lparr>suppressTelemetry := True,
        properties := (properties (newActionContext e))(''source'' \<mapsto> ''azureRegistryNodes'')\<rparr>"
  by (simp add: AzureRegistryNode_getChildren_def callWithTelemetryAndErrorHandling_def
      Let_def split: sum.splits)

text \<open>
  C5. When the registry node has an account and the listing of the registry's
  repositories returns \<open>k\<close> repositories, \<open>AzureRegistryNode.getChildren\<close> returns
  \<open>k + 1\<close> nodes: the \<open>TaskRootNode\<close> first, then one \<open>AzureRepositoryNode\<close> per repository,
  in the order of the listing (the labels of the repository nodes are the names of the
  repositories, in that order).
\<close>

theorem registry_children_signed_in:
  assumes "azureAccount me = Some acct"
    and "getRepositoriesByRegistry e (registry element) = Inr repositories"
  shows "(let nodes = TaskRootNode ''Tasks'' (azureAccount element) (subscription element)
                        (registry element)
                # map (\<lambda>repository. AzureRepositoryNode (Repository_name repository) element
                         (azureAccount me) (subscription element) (registry element)
                         (label element)) repositories
          in fst (AzureRegistryNode_getChildren e me element) = Some nodes \<and>
             length nodes = length repositories + 1 \<and>
             map label (tl nodes) = map Repository_name repositories)"
  using getChildren_registry_result [OF assms] by (simp add: comp_def)

theorem registry_children_signed_in_witness:
  "azureAccount example_registryNode = Some (AzureAccount ''user'') \<and>
   getRepositoriesByRegistry example_env (registry example_registryNode) =
     Inr [\<lparr>Repository_name = ''app'', Repository_registry = Registry ''myregistry''\<rparr>,
          \<lparr>Repository_name = ''base'', Repository_registry = Registry ''myregistry''\<rparr>] \<and>
   fst (AzureRegistryNode_getChildren example_env example_registryNode example_registryNode) =
     Some [TaskRootNode ''Tasks'' (Some (AzureAccount ''user'')) (Subscription ''sub-1'')
             (Registry ''myregistry''),
           AzureRepositoryNode ''app'' example_registryNode (Some (AzureAccount ''user''))
             (Subscription ''sub-1'') (Registry ''myregistry'') ''myregistry'',
           AzureRepositoryNode ''base'' example_registryNode (Some (AzureAccount ''user''))
             (Subscription ''sub-1'') (Registry ''myregistry'') ''myregistry'']"
  using registry_children_signed_in [of example_registryNode "AzureAccount ''user''" example_env
      example_registryNode
      "[\<lparr>Repository_name = ''app'', Repository_registry = Registry ''myregistry''\<rparr>,
        \<lparr>Repository_name = ''base'', Repository_registry = Registry ''myregistry''\<rparr>]"]
  by (simp add: example_env_def example_registryNode_def)

text \<open>
  C6. When the registry node has no account, \<open>AzureRegistryNode.getChildren\<close> returns
  the empty list: the call returns a value (nothing thrown reaches the wrapper, whatever
  the collaborators would do), and the list does not hold the \<open>TaskRootNode\<close> that the
  method had pushed.
\<close>

theorem registry_children_signed_out:
  "azureAccount me = None \<Longrightarrow> fst (AzureRegistryNode_getChildren e me element) = Some []"
  by (simp add: AzureRegistryNode_getChildren_def callWithTelemetryAndErrorHandling_def)

theorem registry_children_signed_out_witness:
  "azureAccount example_signedOutNode = None \<and>
   fst (AzureRegistryNode_getChildren example_env example_signedOutNode example_signedOutNode)
     = Some []"
  using registry_children_signed_out [of example_signedOutNode example_env example_signedOutNode]
  by (simp add: example_signedOutNode_def)

text \<open>
  The \<open>repositoryName\<close> of every repository node that \<open>AzureRegistryNode.getChildren\<close>
  creates is the label of the registry node it was called on: the call passes
  \<open>element.label\<close> as the constructor's last argument, and \<open>repository.name\<close> as its first.
\<close>

lemma registry_children_repositoryName:
  assumes "azureAccount me = Some acct"
    and "getRepositoriesByRegistry e (registry element) = Inr repositories"
  shows "map repositoryName (tl (the (fst (AzureRegistryNode_getChildren e me element)))) =
     replicate (length repositories) (label element)"
  using getChildren_registry_result [OF assms] by (simp add: comp_def map_replicate_const)

text \<open>
  C2 asks that each created node's \<open>repositoryName\<close> be the name of its repository. On
  the registry \<open>myregistry\<close> with the repositories \<open>app\<close> and \<open>base\<close> the two created nodes
  have the \<open>repositoryName\<close> \<open>myregistry\<close>, the label of the registry node; the names of
  the repositories are their labels.
\<close>

theorem registry_children_repositoryName_is_registry_label:
  "fst (AzureRegistryNode_getChildren example_env example_registryNode example_registryNode) =
     Some [TaskRootNode ''Tasks'' (Some (AzureAccount ''user'')) (Subscription ''sub-1'')
             (Registry ''myregistry''),
           AzureRepositoryNode ''app'' example_registryNode (Some (AzureAccount ''user''))
             (Subscription ''sub-1'') (Registry ''myregistry'') ''myregistry'',
           AzureRepositoryNode ''base'' example_registryNode (Some (AzureAccount ''user''))
             (Subscription ''sub-1'') (Registry ''myregistry'') ''myregistry''] \<and>
   map repositoryName
     (tl (the (fst (AzureRegistryNode_getChildren example_env example_registryNode
                      example_registryNode)))) = [''myregistry'', ''myregistry''] \<and>
   map Repository_name
     (projr (getRepositoriesByRegistry example_env (registry example_registryNode))) =
     [''app'', ''base'']"
  by (simp add: AzureRegistryNode_getChildren_def callWithTelemetryAndErrorHandling_def
      example_env_def example_registryNode_def)

section \<open>The children of a repository node\<close>

lemma pushImageNodes_appends:
  "\<forall>img\<in>set images. \<exists>url. getLoginServer e (AzureImage_registry img) = Inr url \<Longrightarrow>
   pushImageNodes e element images imageNodes =
     Inr (imageNodes @ map (\<lambda>img. new_AzureImageTagNode (azureAccount element) element
        (AzureImage_subscription img) (AzureImage_registry img)
        (projr (getLoginServer e (AzureImage_registry img)))
        (Repository_name (AzureImage_repository img)) (AzureImage_tag img)
        (AzureImage_created img)) images)"
proof (induction images arbitrary: imageNodes)
  case Nil
  show ?case by simp
next
  case (Cons img images)
  from Cons.prems obtain url where url: "getLoginServer e (AzureImage_registry img) = Inr url"
    by auto
  from Cons.prems
  have rest: "\<forall>i\<in>set images. \<exists>url. getLoginServer e (AzureImage_registry i) = Inr url"
    by simp
  show ?case
    by (simp add: url Cons.IH [OF rest])
qed

lemma pushImageNodes_throws:
  "img \<in> set images \<Longrightarrow> getLoginServer e (AzureImage_registry img) = Inl err \<Longrightarrow>
   \<exists>err'. pushImageNodes e element images imageNodes = Inl err'"
  by (induction images arbitrary: imageNodes) (auto split: sum.splits)

lemma getChildren_repository_result:
  assumes "Repository_Create e (registry element) (label element) = Inr repo"
    and "getImagesByRepository e repo = Inr images"
    and "\<forall>img\<in>set images. \<exists>url. getLoginServer e (AzureImage_registry img) = Inr url"
  shows "fst (AzureRepositoryNode_getChildren e me element) =
     Some (map (\<lambda>img. new_AzureImageTagNode (azureAccount element) element
        (AzureImage_subscription img) (AzureImage_registry img)
        (projr (getLoginServer e (AzureImage_registry img)))
        (Repository_name (AzureImage_repository img)) (AzureImage_tag img)
        (AzureImage_created img)) images)"
  using assms(1,2) pushImageNodes_appends [OF assms(3), of element "[]"]
  by (simp add: AzureRepositoryNode_getChildren_def callWithTelemetryAndErrorHandling_def)

text \<open>
  C7, with the side condition the code needs. When \<open>Repository.Create\<close> returns a
  repository handle, the image listing returns \<open>m\<close> images, and \<open>getLoginServer\<close> returns a
  server for the registry of each of these images, \<open>AzureRepositoryNode.getChildren\<close>
  returns \<open>m\<close> \<open>AzureImageTagNode\<close> items, one per image in the order of the listing, and
  the label of each is the name of the image's repository, a colon, and the image's
  tag.
\<close>

theorem repository_children:
  assumes "Repository_Create e (registry element) (label element) = Inr repo"
    and "getImagesByRepository e repo = Inr images"
    and "\<forall>img\<in>set images. \<exists>url. getLoginServer e (AzureImage_registry img) = Inr url"
  shows "(let nodes = map (\<lambda>img. AzureImageTagNode
                (Repository_name (AzureImage_repository img) @ '':'' @ AzureImage_tag img)
                (azureAccount element) element
                (AzureImage_subscription img) (AzureImage_registry img)
                (projr (getLoginServer e (AzureImage_registry img)))
                (Repository_name (AzureImage_repository img)) (AzureImage_tag img)
                (AzureImage_created img)) images
          in fst (AzureRepositoryNode_getChildren e me element) = Some nodes \<and>
             length nodes = length images \<and>
             map label nodes =
               map (\<lambda>img. Repository_name (AzureImage_repository img) @ '':'' @ AzureImage_tag img)
                 images)"
  using getChildren_repository_result [OF assms]
  by (simp add: comp_def new_AzureImageTagNode_def getImageNameWithTag_def)

theorem repository_children_witness:
  "Repository_Create example_env (registry example_repositoryNode) (label example_repositoryNode) =
     Inr \<lparr>Repository_name = ''app'', Repository_registry = Registry ''myregistry''\<rparr> \<and>
   getImagesByRepository example_env
       \<lparr>Repository_name = ''app'', Repository_registry = Registry ''myregistry''\<rparr> =
     Inr [\<lparr>AzureImage_subscription = Subscription ''sub-1'',
         AzureImage_registry = Registry ''myregistry'',
         AzureImage_repository =
           \<lparr>Repository_name = ''app'', Repository_registry = Registry ''myregistry''\<rparr>,
         AzureImage_tag = ''latest'',
         AzureImage_created = 0\<rparr>] \<and>
   getLoginServer example_env (Registry ''myregistry'') = Inr ''myregistry.azurecr.io'' \<and>
   fst (AzureRepositoryNode_getChildren example_env example_repositoryNode
          example_repositoryNode) =
     Some [AzureImageTagNode ''app:latest'' (Some (AzureAccount ''user'')) example_repositoryNode
             (Subscription ''sub-1'') (Registry ''myregistry'') ''myregistry.azurecr.io''
             ''app'' ''latest'' 0]"
  using repository_children [of example_env example_repositoryNode
      "\<lparr>Repository_name = ''app'', Repository_registry = Registry ''myregistry''\<rparr>"
      "[\<lparr>AzureImage_subscription = Subscription ''sub-1'',
         AzureImage_registry = Registry ''myregistry'',
         AzureImage_repository =
           \<lparr>Repository_name = ''app'', Repository_registry = Registry ''myregistry''\<rparr>,
         AzureImage_tag = ''latest'',
         AzureImage_created = 0\<rparr>]" example_repositoryNode]
  by (simp add: example_env_def example_repositoryNode_def)

text \<open>
  C7 as stated has the image listing's return as its only condition. When the listing
  returns one image and \<open>getLoginServer\<close> throws for that image's registry, the loop is
  left with the error and the wrapper returns \<open>undefined\<close>: no list of one node.
\<close>

theorem repository_children_loginServer_counterexample:
  "Repository_Create example_env_noLoginServer (registry example_repositoryNode)
       (label example_repositoryNode) =
     Inr \<lparr>Repository_name = ''app'', Repository_registry = Registry ''myregistry''\<rparr> \<and>
   getImagesByRepository example_env_noLoginServer
       \<lparr>Repository_name = ''app'', Repository_registry = Registry ''myregistry''\<rparr> =
     Inr [\<lparr>AzureImage_subscription = Subscription ''sub-1'',
         AzureImage_registry = Registry ''myregistry'',
         AzureImage_repository =
           \<lparr>Repository_name = ''app'', Repository_registry = Registry ''myregistry''\<rparr>,
         AzureImage_tag = ''latest'',
         AzureImage_created = 0\<rparr>] \<and>
   getLoginServer example_env_noLoginServer (Registry ''myregistry'') =
     Inl (Error ''loginServer is missing'') \<and>
   fst (AzureRepositoryNode_getChildren example_env_noLoginServer example_repositoryNode
          example_repositoryNode) = None"
  by (simp add: AzureRepositoryNode_getChildren_def callWithTelemetryAndErrorHandling_def
      example_env_noLoginServer_def example_env_def example_repositoryNode_def)

section \<open>Tree items\<close>

text \<open>
  C8. The tree item of an \<open>AzureImageTagNode\<close> has the collapsible state \<open>None\<close>, and its
  label is \<open>formatTag\<close> applied to the node's label and creation time; for a node built by
  the class's constructor that label is the repository name, a colon, and the tag.
\<close>

theorem imageTag_treeItem:
  "TreeItem_collapsibleState (fst (getTreeItem e (AzureImageTagNode l a p s r u n t c))) =
     TreeItemCollapsibleState_None \<and>
   TreeItem_label (fst (getTreeItem e (AzureImageTagNode l a p s r u n t c))) = formatTag e l c \<and>
   TreeItem_collapsibleState (fst (getTreeItem e (new_AzureImageTagNode a p s r u n t c))) =
     TreeItemCollapsibleState_None \<and>
   TreeItem_label (fst (getTreeItem e (new_AzureImageTagNode a p s r u n t c))) =
     formatTag e (n @ '':'' @ t) c"
  by (simp add: new_AzureImageTagNode_def getImageNameWithTag_def)

section \<open>The restart command\<close>

subsection \<open>The state the command starts the callbacks from\<close>

lemma call_fields [simp]:
  "numContainers (call c s) = numContainers s"
  "containerCounter (call c s) = containerCounter s"
  "aggregate (call c s) = aggregate s"
  "calls (call c s) = calls s @ [c]"
  by (simp_all add: call_def)

lemma forEach_restart_fields:
  "numContainers (forEach_restart cs s) = numContainers s"
  "containerCounter (forEach_restart cs s) = containerCounter s"
  "aggregate (forEach_restart cs s) = aggregate s"
  "calls (forEach_restart cs s) = calls s @ map (\<lambda>c. RestartIssued (ContainerDesc_Id c)) cs"
  by (induction cs arbitrary: s) simp_all

lemma restartContainer_targets:
  assumes "restartContainer q ctx = Inr s0"
  shows "\<exists>cs. s0 = call (SetStatusBarMessage ''Docker: Restarting Container(s)...'')
           (forEach_restart cs \<lparr>numContainers = length cs, containerCounter = 0,
              aggregate = Pending, calls = []\<rparr>)"
  using assms
  by (auto simp: restartContainer_def Let_def
      split: sum.splits CommandContext.splits option.splits)

lemma restartContainer_start:
  assumes "restartContainer q ctx = Inr s0"
  shows "containerCounter s0 = 0" and "aggregate s0 = Pending"
    and "\<exists>cs :: ContainerDesc list. numContainers s0 = length cs \<and>
           calls s0 = map (\<lambda>c. RestartIssued (ContainerDesc_Id c)) cs
             @ [SetStatusBarMessage ''Docker: Restarting Container(s)...'']"
proof -
  from restartContainer_targets [OF assms] obtain cs where
    s0: "s0 = call (SetStatusBarMessage ''Docker: Restarting Container(s)...'')
           (forEach_restart cs \<lparr>numContainers = length cs, containerCounter = 0,
              aggregate = Pending, calls = []\<rparr>)"
    by blast
  show "containerCounter s0 = 0" by (simp add: s0 forEach_restart_fields)
  show "aggregate s0 = Pending" by (simp add: s0 forEach_restart_fields)
  show "\<exists>cs :: ContainerDesc list. numContainers s0 = length cs \<and>
           calls s0 = map (\<lambda>c. RestartIssued (ContainerDesc_Id c)) cs
             @ [SetStatusBarMessage ''Docker: Restarting Container(s)...'']"
    by (rule exI [of _ cs]) (simp add: s0 forEach_restart_fields)
qed

lemma restartContainer_throws:
  "q \<lparr>filters_status = [''running'', ''paused'', ''exited'']\<rparr> = Inl err \<Longrightarrow>
   restartContainer q Context_undefined = Inl err"
  by (simp add: restartContainer_def)

lemma start_counts:
  assumes "restartContainer q ctx = Inr s0"
  shows "count_list (calls s0) RefreshContainers = 0"
    and "count_list (calls s0) ResolveCalled = 0"
    and "count_list (calls s0) RejectCalled = 0"
proof -
  from restartContainer_start(3) [OF assms] obtain cs :: "ContainerDesc list" where
    c: "calls s0 = map (\<lambda>c. RestartIssued (ContainerDesc_Id c)) cs
             @ [SetStatusBarMessage ''Docker: Restarting Container(s)...'']"
    by blast
  have m: "count_list (map (\<lambda>c. RestartIssued (ContainerDesc_Id c)) cs) RefreshContainers = 0"
    "count_list (map (\<lambda>c. RestartIssued (ContainerDesc_Id c)) cs) ResolveCalled = 0"
    "count_list (map (\<lambda>c. RestartIssued (ContainerDesc_Id c)) cs) RejectCalled = 0"
    by (induction cs) simp_all
  show "count_list (calls s0) RefreshContainers = 0" by (simp add: c m)
  show "count_list (calls s0) ResolveCalled = 0" by (simp add: c m)
  show "count_list (calls s0) RejectCalled = 0" by (simp add: c m)
qed

lemma start_no_targets:
  assumes "restartContainer q ctx = Inr s0" and "numContainers s0 = 0"
  shows "calls s0 = [SetStatusBarMessage ''Docker: Restarting Container(s)...'']"
proof -
  from restartContainer_start(3) [OF assms(1)] obtain cs :: "ContainerDesc list" where
    n: "numContainers s0 = length cs" and
    c: "calls s0 = map (\<lambda>c. RestartIssued (ContainerDesc_Id c)) cs
             @ [SetStatusBarMessage ''Docker: Restarting Container(s)...'']"
    by blast
  from n assms(2) have "cs = []" by simp
  then show ?thesis using c by simp
qed

lemma example_two_start:
  "restartContainer example_pick_two Context_undefined = Inr example_two_started"
  by (simp add: restartContainer_def example_pick_two_def call_def example_two_started_def)

lemma example_none_start:
  "restartContainer example_pick_none Context_RootNode = Inr example_none_started"
  by (simp add: restartContainer_def example_pick_none_def call_def example_none_started_def)

subsection \<open>One callback\<close>

lemma restartCallback_numContainers [simp]:
  "numContainers (restartCallback err s) = numContainers s"
  by (simp add: restartCallback_def Let_def resolve_def reject_def refreshContainers_def
      showErrorMessage_def split: option.splits)

lemma restartCallback_counter [simp]:
  "containerCounter (restartCallback err s) = Suc (containerCounter s)"
  by (simp add: restartCallback_def Let_def resolve_def reject_def refreshContainers_def
      showErrorMessage_def split: option.splits)

lemma restartCallback_success_early:
  "Suc (containerCounter s) \<noteq> numContainers s \<Longrightarrow>
   restartCallback None s = s\<lparr>containerCounter := Suc (containerCounter s)\<rparr>"
  by (simp add: restartCallback_def)

lemma restartCallback_success_last:
  "Suc (containerCounter s) = numContainers s \<Longrightarrow>
   restartCallback None s =
     resolve (refreshContainers (s\<lparr>containerCounter := Suc (containerCounter s)\<rparr>))"
  by (simp add: restartCallback_def)

lemma restartCallback_error:
  "restartCallback (Some er) s =
     (let s1 = reject (refreshContainers (showErrorMessage (message er)
                 (s\<lparr>containerCounter := Suc (containerCounter s)\<rparr>)))
      in if Suc (containerCounter s) = numContainers s then resolve (refreshContainers s1) else s1)"
  by (simp add: restartCallback_def Let_def reject_def refreshContainers_def showErrorMessage_def)

lemma restartCallback_aggregate:
  "aggregate (restartCallback err s) =
     (if aggregate s \<noteq> Pending then aggregate s
      else if err \<noteq> None then Rejected
      else if Suc (containerCounter s) = numContainers s then Fulfilled else Pending)"
  by (simp add: restartCallback_def Let_def resolve_def reject_def refreshContainers_def
      showErrorMessage_def split: option.splits)

lemma calls_error_callback:
  "calls (restartCallback (Some er) s) =
     calls s @ [ShowErrorMessage (message er), RefreshContainers, RejectCalled]
       @ (if Suc (containerCounter s) = numContainers s then [RefreshContainers, ResolveCalled]
          else [])"
  by (simp add: restartCallback_error Let_def resolve_def reject_def refreshContainers_def
      showErrorMessage_def)

lemma error_callback_rejects:
  "aggregate s \<noteq> Fulfilled \<Longrightarrow> aggregate (restartCallback (Some er) s) = Rejected"
  by (cases "aggregate s") (simp_all add: restartCallback_aggregate)

subsection \<open>Runs of callbacks\<close>

lemma observe_numContainers [simp]: "numContainers (observe errs s) = numContainers s"
  by (induction errs arbitrary: s) simp_all

lemma observe_counter [simp]:
  "containerCounter (observe errs s) = containerCounter s + length errs"
  by (induction errs arbitrary: s) simp_all

lemma observe_append: "observe (xs @ ys) s = observe ys (observe xs s)"
  by (induction xs arbitrary: s) simp_all

lemma settlements_append:
  "settlements (xs @ ys) s = settlements xs s + settlements ys (observe xs s)"
  by (induction xs arbitrary: s) simp_all

text \<open>Successes short of the last callback only count.\<close>

lemma observe_successes_early:
  "containerCounter s + k < numContainers s \<Longrightarrow>
   observe (replicate k None) s = s\<lparr>containerCounter := containerCounter s + k\<rparr>"
proof (induction k arbitrary: s)
  case 0
  show ?case by simp
next
  case (Suc k)
  have ne: "Suc (containerCounter s) \<noteq> numContainers s" using Suc.prems by simp
  have "observe (replicate (Suc k) None) s =
          observe (replicate k None) (s\<lparr>containerCounter := Suc (containerCounter s)\<rparr>)"
    by (simp add: restartCallback_success_early [OF ne])
  also have "\<dots> = s\<lparr>containerCounter := containerCounter s + Suc k\<rparr>"
    using Suc.prems by (subst Suc.IH) simp_all
  finally show ?case .
qed

lemma observe_pending_early:
  "aggregate s = Pending \<Longrightarrow> \<forall>x\<in>set errs. x = None \<Longrightarrow>
   containerCounter s + length errs < numContainers s \<Longrightarrow>
   aggregate (observe errs s) = Pending \<and> calls (observe errs s) = calls s"
proof (induction errs arbitrary: s)
  case Nil
  then show ?case by simp
next
  case (Cons x errs)
  then have x: "x = None" by simp
  have ne: "Suc (containerCounter s) \<noteq> numContainers s" using Cons.prems by simp
  show ?case
    using Cons.prems Cons.IH [of "s\<lparr>containerCounter := Suc (containerCounter s)\<rparr>"]
    by (simp add: x restartCallback_success_early [OF ne])
qed

lemma settlements_pending_early:
  "aggregate s = Pending \<Longrightarrow> \<forall>x\<in>set errs. x = None \<Longrightarrow>
   containerCounter s + length errs < numContainers s \<Longrightarrow> settlements errs s = 0"
proof (induction errs arbitrary: s)
  case Nil
  show ?case by simp
next
  case (Cons x errs)
  then have x: "x = None" by simp
  have ne: "Suc (containerCounter s) \<noteq> numContainers s" using Cons.prems by simp
  show ?case
    using Cons.prems Cons.IH [of "s\<lparr>containerCounter := Suc (containerCounter s)\<rparr>"]
    by (simp add: x restartCallback_success_early [OF ne])
qed

text \<open>A rejected promise stays rejected, and does not settle again.\<close>

lemma observe_rejected: "aggregate s = Rejected \<Longrightarrow> aggregate (observe errs s) = Rejected"
  by (induction errs arbitrary: s) (simp_all add: restartCallback_aggregate)

lemma settlements_rejected: "aggregate s = Rejected \<Longrightarrow> settlements errs s = 0"
  by (induction errs arbitrary: s) (simp_all add: restartCallback_aggregate)

text \<open>The promise is not fulfilled before the last callback has run.\<close>

lemma observe_unfulfilled_early:
  "aggregate s \<noteq> Fulfilled \<Longrightarrow> containerCounter s + length errs < numContainers s \<Longrightarrow>
   aggregate (observe errs s) \<noteq> Fulfilled"
proof (induction errs arbitrary: s)
  case Nil
  then show ?case by simp
next
  case (Cons x errs)
  have "aggregate (restartCallback x s) \<noteq> Fulfilled"
    using Cons.prems by (simp add: restartCallback_aggregate)
  then show ?case using Cons.prems Cons.IH [of "restartCallback x s"] by simp
qed

lemma observed_before_last:
  assumes start: "restartContainer q ctx = Inr s0"
    and len: "length pre < numContainers s0"
  shows "aggregate (observe pre s0) \<noteq> Fulfilled"
proof -
  have "aggregate s0 \<noteq> Fulfilled" by (simp add: restartContainer_start(2) [OF start])
  moreover have "containerCounter s0 + length pre < numContainers s0"
    using len by (simp add: restartContainer_start(1) [OF start])
  ultimately show ?thesis by (rule observe_unfulfilled_early)
qed

text \<open>
  Before the last callback the promise is pending as long as every callback so far has
  reported success, and rejected from the first error on.
\<close>

lemma observed_pending_or_rejected:
  assumes start: "restartContainer q ctx = Inr s0"
    and len: "length pre < numContainers s0"
  shows "aggregate (observe pre s0) = (if list_all (\<lambda>x. x = None) pre then Pending else Rejected)"
proof (cases "list_all (\<lambda>x. x = None) pre")
  case True
  then have allNone: "\<forall>x\<in>set pre. x = None" by (simp add: list_all_iff)
  have early: "containerCounter s0 + length pre < numContainers s0"
    using len by (simp add: restartContainer_start(1) [OF start])
  show ?thesis
    using observe_pending_early [OF restartContainer_start(2) [OF start] allNone early] True
    by simp
next
  case False
  then have "\<exists>x\<in>set pre. x \<noteq> None" by (simp add: list_all_iff)
  from split_list_first_prop [OF this] obtain ys x zs where
    pre: "pre = ys @ x # zs" and x: "x \<noteq> None"
    by blast
  from x obtain er where er: "x = Some er" by (cases x) simp_all
  have "length ys < numContainers s0" using len pre by simp
  from observed_before_last [OF start this]
  have "aggregate (restartCallback (Some er) (observe ys s0)) = Rejected"
    by (rule error_callback_rejects)
  then have "aggregate (observe zs (restartCallback (Some er) (observe ys s0))) = Rejected"
    by (rule observe_rejected)
  then show ?thesis using False by (simp add: pre er observe_append)
qed

lemma settlements_with_error:
  assumes pend: "aggregate s = Pending"
    and len: "containerCounter s + length errs \<le> numContainers s"
    and err: "\<exists>x\<in>set errs. x \<noteq> None"
  shows "settlements errs s = 1"
proof -
  from split_list_first_prop [OF err] obtain ys x zs where
    errs: "errs = ys @ x # zs" and x: "x \<noteq> None" and ys: "\<forall>y\<in>set ys. \<not> y \<noteq> None"
    by blast
  have ys': "\<forall>y\<in>set ys. y = None" using ys by simp
  have early: "containerCounter s + length ys < numContainers s" using len errs by simp
  have p1: "aggregate (observe ys s) = Pending"
    using observe_pending_early [OF pend ys' early] by simp
  have s1: "settlements ys s = 0" by (rule settlements_pending_early [OF pend ys' early])
  have r: "aggregate (restartCallback x (observe ys s)) = Rejected"
    using x p1 by (simp add: restartCallback_aggregate)
  have s2: "settlements zs (restartCallback x (observe ys s)) = 0"
    by (rule settlements_rejected [OF r])
  show ?thesis
    by (simp add: errs settlements_append s1 s2 r p1)
qed

lemma observe_all_succeed:
  assumes c0: "containerCounter s = 0" and n: "1 \<le> numContainers s"
  shows "observe (replicate (numContainers s) None) s =
     resolve (refreshContainers (s\<lparr>containerCounter := numContainers s\<rparr>))"
proof -
  obtain k where k: "numContainers s = Suc k" using n by (cases "numContainers s") simp_all
  have early: "containerCounter s + k < numContainers s" using c0 k by simp
  have snoc: "replicate (Suc k) (None :: Error option) = replicate k None @ [None]"
    by (simp add: replicate_append_same)
  have "observe (replicate (Suc k) None) s = restartCallback None (observe (replicate k None) s)"
    unfolding snoc by (simp add: observe_append)
  also have "\<dots> = restartCallback None (s\<lparr>containerCounter := k\<rparr>)"
    using observe_successes_early [OF early] c0 by simp
  also have "\<dots> = resolve (refreshContainers (s\<lparr>containerCounter := Suc k\<rparr>))"
    using restartCallback_success_last [of "s\<lparr>containerCounter := k\<rparr>"] k by simp
  finally show ?thesis by (simp add: k)
qed

lemma settlements_all_succeed:
  assumes c0: "containerCounter s = 0" and p: "aggregate s = Pending"
    and n: "1 \<le> numContainers s"
  shows "settlements (replicate (numContainers s) None) s = 1"
proof -
  obtain k where k: "numContainers s = Suc k" using n by (cases "numContainers s") simp_all
  have early: "containerCounter s + length (replicate k (None :: Error option)) < numContainers s"
    using c0 k by simp
  have allNone: "\<forall>x\<in>set (replicate k (None :: Error option)). x = None" by simp
  have z: "settlements (replicate k None) s = 0"
    by (rule settlements_pending_early [OF p allNone early])
  have st: "observe (replicate k None) s = s\<lparr>containerCounter := k\<rparr>"
    using observe_successes_early [of s k] c0 k by simp
  have snoc: "replicate (Suc k) (None :: Error option) = replicate k None @ [None]"
    by (simp add: replicate_append_same)
  have "settlements (replicate (Suc k) None) s =
          settlements (replicate k None) s + settlements [None] (observe (replicate k None) s)"
    unfolding snoc by (rule settlements_append)
  also have "\<dots> = 1"
    using p k by (simp add: z st restartCallback_aggregate)
  finally show ?thesis by (simp add: k)
qed

subsection \<open>Every restart succeeds\<close>

text \<open>
  C1, as the code has it. Take a batch of \<open>N \<ge> 1\<close> containers whose \<open>N\<close> callbacks all
  report success. After any \<open>k < N\<close> of them the promise is still pending and nothing
  has been called: no \<open>refreshContainers\<close>, no \<open>resolve\<close>, no \<open>reject\<close>; the callbacks have
  only counted. The \<open>N\<close>-th callback calls \<open>refreshContainers\<close> once and then \<open>resolve\<close>:
  after it the promise is fulfilled, it has settled once over the run, and the calls
  of the whole run are those of the command's start followed by that one refresh and
  that one \<open>resolve\<close>.
\<close>

theorem restart_all_succeed:
  assumes start: "restartContainer q ctx = Inr s0"
    and n: "1 \<le> numContainers s0"
  shows "(\<forall>k < numContainers s0.
            (let sk = observe (replicate k None) s0 in
               sk = s0\<lparr>containerCounter := k\<rparr> \<and>
               aggregate sk = Pending \<and>
               calls sk = calls s0 \<and>
               count_list (calls sk) RefreshContainers = 0 \<and>
               count_list (calls sk) ResolveCalled = 0 \<and>
               settlements (replicate k None) s0 = 0)) \<and>
         (let s = observe (replicate (numContainers s0) None) s0 in
            aggregate s = Fulfilled \<and>
            settlements (replicate (numContainers s0) None) s0 = 1 \<and>
            calls s = calls s0 @ [RefreshContainers, ResolveCalled] \<and>
            count_list (calls s) ResolveCalled = 1 \<and>
            count_list (calls s) RefreshContainers = 1 \<and>
            count_list (calls s) RejectCalled = 0)"
proof -
  note c0 = restartContainer_start(1) [OF start]
  note p = restartContainer_start(2) [OF start]
  have early: "observe (replicate k None) s0 = s0\<lparr>containerCounter := k\<rparr> \<and>
      aggregate (observe (replicate k None) s0) = Pending \<and>
      calls (observe (replicate k None) s0) = calls s0 \<and>
      count_list (calls (observe (replicate k None) s0)) RefreshContainers = 0 \<and>
      count_list (calls (observe (replicate k None) s0)) ResolveCalled = 0 \<and>
      settlements (replicate k None) s0 = 0"
    if k: "k < numContainers s0" for k
  proof -
    have lt: "containerCounter s0 + k < numContainers s0" using k c0 by simp
    have st: "observe (replicate k None) s0 = s0\<lparr>containerCounter := k\<rparr>"
      using observe_successes_early [OF lt] c0 by simp
    have allNone: "\<forall>x\<in>set (replicate k (None :: Error option)). x = None" by simp
    have lt': "containerCounter s0 + length (replicate k (None :: Error option)) < numContainers s0"
      using lt by simp
    have z: "settlements (replicate k None) s0 = 0"
      by (rule settlements_pending_early [OF p allNone lt'])
    show ?thesis
      unfolding st using p z by (simp add: start_counts [OF start])
  qed
  have s: "observe (replicate (numContainers s0) None) s0 =
     resolve (refreshContainers (s0\<lparr>containerCounter := numContainers s0\<rparr>))"
    by (rule observe_all_succeed [OF c0 n])
  have a: "aggregate (resolve (refreshContainers (s0\<lparr>containerCounter := numContainers s0\<rparr>)))
             = Fulfilled"
    by (simp add: resolve_def refreshContainers_def p)
  have c: "calls (resolve (refreshContainers (s0\<lparr>containerCounter := numContainers s0\<rparr>)))
             = calls s0 @ [RefreshContainers, ResolveCalled]"
    by (simp add: resolve_def refreshContainers_def)
  have final: "(let s = observe (replicate (numContainers s0) None) s0 in
            aggregate s = Fulfilled \<and>
            settlements (replicate (numContainers s0) None) s0 = 1 \<and>
            calls s = calls s0 @ [RefreshContainers, ResolveCalled] \<and>
            count_list (calls s) ResolveCalled = 1 \<and>
            count_list (calls s) RefreshContainers = 1 \<and>
            count_list (calls s) RejectCalled = 0)"
    unfolding Let_def s a c
    by (simp add: start_counts [OF start] settlements_all_succeed [OF c0 p n])
  have before: "\<forall>k < numContainers s0.
            (let sk = observe (replicate k None) s0 in
               sk = s0\<lparr>containerCounter := k\<rparr> \<and>
               aggregate sk = Pending \<and>
               calls sk = calls s0 \<and>
               count_list (calls sk) RefreshContainers = 0 \<and>
               count_list (calls sk) ResolveCalled = 0 \<and>
               settlements (replicate k None) s0 = 0)"
    unfolding Let_def by (intro allI impI) (rule early)
  show ?thesis
    by (rule conjI [OF before final])
qed

theorem restart_all_succeed_witness:
  "restartContainer example_pick_two Context_undefined = Inr example_two_started \<and>
   1 \<le> numContainers example_two_started \<and>
   aggregate (observe [None] example_two_started) = Pending \<and>
   calls (observe [None] example_two_started) = calls example_two_started \<and>
   count_list (calls (observe [None] example_two_started)) RefreshContainers = 0 \<and>
   aggregate (observe [None, None] example_two_started) = Fulfilled \<and>
   settlements [None, None] example_two_started = 1 \<and>
   calls (observe [None, None] example_two_started) =
     [RestartIssued ''c1'', RestartIssued ''c2'',
      SetStatusBarMessage ''Docker: Restarting Container(s)...'',
      RefreshContainers, ResolveCalled]"
  using restart_all_succeed [OF example_two_start]
  by (simp add: example_two_start example_two_started_def Let_def restartCallback_def
      resolve_def refreshContainers_def call_def)

text \<open>
  C1 as stated asks for at least \<open>N\<close> calls of \<open>refreshContainers\<close>, one per successful
  callback. With two containers that both restart, the promise is fulfilled and
  \<open>refreshContainers\<close> has been called once, which is fewer than two.
\<close>

theorem restart_all_succeed_refresh_counterexample:
  "restartContainer example_pick_two Context_undefined = Inr example_two_started \<and>
   numContainers example_two_started = 2 \<and>
   aggregate (observe [None, None] example_two_started) = Fulfilled \<and>
   count_list (calls (observe [None, None] example_two_started)) RefreshContainers = 1 \<and>
   \<not> numContainers example_two_started
       \<le> count_list (calls (observe [None, None] example_two_started)) RefreshContainers"
  by (simp add: example_two_start example_two_started_def restartCallback_def resolve_def
      refreshContainers_def call_def)

subsection \<open>No container to restart\<close>

text \<open>
  C3. When the command has no container to restart, no callback is registered, so none
  can run: the state stays the one the command left, in which the promise is pending and
  the only call made is that of \<open>setStatusBarMessage\<close> (no restart call, no
  \<open>refreshContainers\<close>, no \<open>resolve\<close>, no \<open>reject\<close>).
\<close>

theorem restart_no_targets_never_settles:
  assumes start: "restartContainer q ctx = Inr s0"
    and none: "numContainers s0 = 0"
    and observed: "length errs \<le> numContainers s0"
  shows "observe errs s0 = s0 \<and> aggregate (observe errs s0) = Pending \<and>
     calls (observe errs s0) = [SetStatusBarMessage ''Docker: Restarting Container(s)...'']"
proof -
  from none observed have "errs = []" by simp
  then show ?thesis
    by (simp add: restartContainer_start(2) [OF start] start_no_targets [OF start none])
qed

theorem restart_no_targets_never_settles_witness:
  "restartContainer example_pick_none Context_RootNode = Inr example_none_started \<and>
   numContainers example_none_started = 0 \<and>
   length ([] :: Error option list) \<le> numContainers example_none_started \<and>
   observe [] example_none_started = example_none_started \<and>
   aggregate (observe [] example_none_started) = Pending \<and>
   calls (observe [] example_none_started) =
     [SetStatusBarMessage ''Docker: Restarting Container(s)...'']"
  using restart_no_targets_never_settles [OF example_none_start, of "[]"]
  by (simp add: example_none_start example_none_started_def)

subsection \<open>A restart fails\<close>

text \<open>
  C4. Take any run of at most \<open>N\<close> callbacks in which some callback reports an error
  \<open>er\<close>, after the callbacks \<open>pre\<close> and before the callbacks \<open>post\<close>. That callback
  increments the counter and calls, in this order, \<open>showErrorMessage\<close> with the message of
  \<open>er\<close>, \<open>refreshContainers\<close> and \<open>reject\<close> (followed by a refresh and \<open>resolve\<close> only if it
  is the \<open>N\<close>-th callback). Before it the promise is pending if every earlier callback
  reported success, and already rejected otherwise; after it, and after every later
  callback, the promise is rejected, however many callbacks are still to come. Over
  the whole run the promise settles once.
\<close>

theorem restart_error_rejects:
  assumes start: "restartContainer q ctx = Inr s0"
    and observed: "length (pre @ Some er # post) \<le> numContainers s0"
  shows "(let s1 = observe pre s0; s2 = restartCallback (Some er) s1; s3 = observe post s2 in
     containerCounter s2 = containerCounter s1 + 1 \<and>
     calls s2 = calls s1 @ [ShowErrorMessage (message er), RefreshContainers, RejectCalled]
       @ (if containerCounter s2 = numContainers s0 then [RefreshContainers, ResolveCalled]
          else []) \<and>
     aggregate s1 = (if list_all (\<lambda>x. x = None) pre then Pending else Rejected) \<and>
     aggregate s2 = Rejected \<and>
     aggregate s3 = Rejected \<and>
     s3 = observe (pre @ Some er # post) s0 \<and>
     settlements (pre @ Some er # post) s0 = 1)"
proof -
  have len: "length pre < numContainers s0" using observed by simp
  have a1: "aggregate (observe pre s0) = (if list_all (\<lambda>x. x = None) pre then Pending else Rejected)"
    by (rule observed_pending_or_rejected [OF start len])
  have a2: "aggregate (restartCallback (Some er) (observe pre s0)) = Rejected"
    by (rule error_callback_rejects [OF observed_before_last [OF start len]])
  have a3: "aggregate (observe post (restartCallback (Some er) (observe pre s0))) = Rejected"
    by (rule observe_rejected [OF a2])
  have c: "calls (restartCallback (Some er) (observe pre s0)) =
     calls (observe pre s0) @ [ShowErrorMessage (message er), RefreshContainers, RejectCalled]
       @ (if containerCounter (restartCallback (Some er) (observe pre s0)) = numContainers s0
          then [RefreshContainers, ResolveCalled] else [])"
    by (simp add: calls_error_callback)
  have st: "settlements (pre @ Some er # post) s0 = 1"
  proof (rule settlements_with_error)
    show "aggregate s0 = Pending" by (rule restartContainer_start(2) [OF start])
    show "containerCounter s0 + length (pre @ Some er # post) \<le> numContainers s0"
      using observed by (simp add: restartContainer_start(1) [OF start])
    show "\<exists>x\<in>set (pre @ Some er # post). x \<noteq> None" by auto
  qed
  have ob: "observe post (restartCallback (Some er) (observe pre s0)) =
     observe (pre @ Some er # post) s0"
    by (simp add: observe_append)
  show ?thesis
    unfolding Let_def
    using a1 a2 a3 c st ob by simp
qed

theorem restart_error_rejects_witness:
  "restartContainer example_pick_two Context_undefined = Inr example_two_started \<and>
   length ([] @ Some (Error ''no such container'') # [None]) \<le> numContainers example_two_started \<and>
   calls (restartCallback (Some (Error ''no such container'')) example_two_started) =
     calls example_two_started
       @ [ShowErrorMessage ''no such container'', RefreshContainers, RejectCalled] \<and>
   aggregate example_two_started = Pending \<and>
   aggregate (restartCallback (Some (Error ''no such container'')) example_two_started) = Rejected \<and>
   aggregate (observe [Some (Error ''no such container''), None] example_two_started) = Rejected \<and>
   settlements [Some (Error ''no such container''), None] example_two_started = 1"
  using restart_error_rejects [OF example_two_start, of "[]" "Error ''no such container''" "[None]"]
  by (simp add: example_two_start example_two_started_def Let_def)

text \<open>
  C10. When the callback that reports an error is the \<open>N\<close>-th one, the second \<open>if\<close> runs
  as well: within that one callback \<open>refreshContainers\<close> is called twice and \<open>resolve\<close> is
  called after \<open>reject\<close>, and the promise is rejected all the same.
\<close>

theorem restart_error_on_last_callback:
  assumes start: "restartContainer q ctx = Inr s0"
    and last: "length pre + 1 = numContainers s0"
  shows "(let s1 = observe pre s0; s2 = restartCallback (Some er) s1 in
     containerCounter s2 = numContainers s0 \<and>
     calls s2 = calls s1 @ [ShowErrorMessage (message er), RefreshContainers, RejectCalled,
                            RefreshContainers, ResolveCalled] \<and>
     count_list (drop (length (calls s1)) (calls s2)) RefreshContainers = 2 \<and>
     aggregate s2 = Rejected)"
proof -
  have len: "length pre < numContainers s0" using last by simp
  have cnt: "Suc (containerCounter (observe pre s0)) = numContainers (observe pre s0)"
    using last by (simp add: restartContainer_start(1) [OF start])
  have a2: "aggregate (restartCallback (Some er) (observe pre s0)) = Rejected"
    by (rule error_callback_rejects [OF observed_before_last [OF start len]])
  have c: "calls (restartCallback (Some er) (observe pre s0)) =
     calls (observe pre s0) @ [ShowErrorMessage (message er), RefreshContainers, RejectCalled,
                            RefreshContainers, ResolveCalled]"
    using cnt by (simp add: calls_error_callback)
  show ?thesis
    unfolding Let_def c
    using a2 cnt by simp
qed

theorem restart_error_on_last_callback_witness:
  "restartContainer example_pick_two Context_undefined = Inr example_two_started \<and>
   length [None :: Error option] + 1 = numContainers example_two_started \<and>
   calls (observe [None, Some (Error ''no such container'')] example_two_started) =
     calls example_two_started
       @ [ShowErrorMessage ''no such container'', RefreshContainers, RejectCalled,
          RefreshContainers, ResolveCalled] \<and>
   aggregate (observe [None, Some (Error ''no such container'')] example_two_started) = Rejected"
  using restart_error_on_last_callback [OF example_two_start, of "[None]" "Error ''no such container''"]
  by (simp add: example_two_start example_two_started_def Let_def restartCallback_def
      resolve_def reject_def refreshContainers_def showErrorMessage_def call_def)

end
